theory Spec2Isabelle
  imports Complex_Main "HOL-Library.Word"
begin

section \<open>Controller pose correction of the Oculus plugin (OculusHelpers.cpp)\<close>

text \<open>
  The embedding covers \<^verbatim>\<open>ovrControllerPoseToHandPose\<close> and the constants it derives.
  The C++ \<^verbatim>\<open>float\<close> is read as a real number throughout: sums, products, sine and cosine
  are the exact ones, so rounding, infinities and NaN are outside this model.
\<close>

subsection \<open>GLM vectors and quaternions\<close>

text \<open>\<^verbatim>\<open>glm::vec3\<close> with its fields x, y, z.\<close>

datatype vec3 = vec3 (vx: real) (vy: real) (vz: real)

text \<open>\<^verbatim>\<open>glm::quat\<close>; the constructor takes w first, then x, y, z, as GLM's does.\<close>

datatype quat = quat (qw: real) (qx: real) (qy: real) (qz: real)

text \<open>
  Modelled from the spec: the GLM operators used by the function are library code outside
  src/. The spec names them quaternion composition, rotation of a vector by a quaternion,
  inverse, and rotation by an angle about an axis; the definitions below are these
  operations written the way GLM computes them.
\<close>

text \<open>\<^verbatim>\<open>vec3 + vec3\<close>, used by \<^verbatim>\<open>pose.translation += ...\<close>.\<close>

definition vec3_add :: "vec3 \<Rightarrow> vec3 \<Rightarrow> vec3" where
  "vec3_add a b = vec3 (vx a + vx b) (vy a + vy b) (vz a + vz b)"

text \<open>\<^verbatim>\<open>vec3 * vec3\<close> is componentwise in GLM.\<close>

definition vec3_mul :: "vec3 \<Rightarrow> vec3 \<Rightarrow> vec3" where
  "vec3_mul a b = vec3 (vx a * vx b) (vy a * vy b) (vz a * vz b)"

text \<open>\<^verbatim>\<open>vec3 * float\<close>.\<close>

definition vec3_scale :: "vec3 \<Rightarrow> real \<Rightarrow> vec3" where
  "vec3_scale a s = vec3 (vx a * s) (vy a * s) (vz a * s)"

text \<open>\<^verbatim>\<open>glm::cross\<close>.\<close>

definition cross :: "vec3 \<Rightarrow> vec3 \<Rightarrow> vec3" where
  "cross a b = vec3 (vy a * vz b - vy b * vz a)
                    (vz a * vx b - vz b * vx a)
                    (vx a * vy b - vx b * vy a)"

text \<open>\<^verbatim>\<open>quat * quat\<close>: the Hamilton product.\<close>

definition quat_mul :: "quat \<Rightarrow> quat \<Rightarrow> quat" where
  "quat_mul p q = quat
     (qw p * qw q - qx p * qx q - qy p * qy q - qz p * qz q)
     (qw p * qx q + qx p * qw q + qy p * qz q - qz p * qy q)
     (qw p * qy q + qy p * qw q + qz p * qx q - qx p * qz q)
     (qw p * qz q + qz p * qw q + qx p * qy q - qy p * qx q)"

text \<open>\<^verbatim>\<open>quat * vec3\<close>: the vector rotated by the quaternion.\<close>

definition quat_rotate :: "quat \<Rightarrow> vec3 \<Rightarrow> vec3" where
  "quat_rotate q v =
     (let QuatVector = vec3 (qx q) (qy q) (qz q);
          uv = cross QuatVector v;
          uuv = cross QuatVector uv
      in vec3_add v (vec3_scale (vec3_add (vec3_scale uv (qw q)) uuv) 2))"

text \<open>\<^verbatim>\<open>glm::dot\<close> on quaternions and \<^verbatim>\<open>glm::length\<close>.\<close>

definition quat_dot :: "quat \<Rightarrow> quat \<Rightarrow> real" where
  "quat_dot a b = (qx a * qx b + qy a * qy b) + (qz a * qz b + qw a * qw b)"

definition quat_length :: "quat \<Rightarrow> real" where
  "quat_length q = sqrt (quat_dot q q)"

text \<open>\<^verbatim>\<open>glm::conjugate\<close> and \<^verbatim>\<open>glm::inverse\<close> (conjugate divided by the squared length).\<close>

definition conjugate :: "quat \<Rightarrow> quat" where
  "conjugate q = quat (qw q) (- qx q) (- qy q) (- qz q)"

definition quat_inverse :: "quat \<Rightarrow> quat" where
  "quat_inverse q =
     (let c = conjugate q; d = quat_dot q q
      in quat (qw c / d) (qx c / d) (qy c / d) (qz c / d))"

text \<open>\<^verbatim>\<open>glm::angleAxis(angle, axis)\<close>: half-angle cosine in w, axis scaled by the half-angle sine.\<close>

definition angleAxis :: "real \<Rightarrow> vec3 \<Rightarrow> quat" where
  "angleAxis angle v =
     (let a = angle; s = sin (a * 0.5)
      in quat (cos (a * 0.5)) (vx v * s) (vy v * s) (vz v * s))"

subsection \<open>Shared constants\<close>

text \<open>
  Modelled from the spec: \<^verbatim>\<open>PI\<close>, \<^verbatim>\<open>PI_OVER_TWO\<close> (NumericalConstants.h) and
  \<^verbatim>\<open>Vectors::UNIT_X/Y/Z\<close> (GLMHelpers.h) are declared outside src/. The spec reads the
  angles built from them as 180, 90 and 45 degrees and the axes as the coordinate axes.
\<close>

definition PI :: real where
  "PI = pi"

definition PI_OVER_TWO :: real where
  "PI_OVER_TWO = 0.5 * PI"

definition UNIT_X :: vec3 where
  "UNIT_X = vec3 1 0 0"

definition UNIT_Y :: vec3 where
  "UNIT_Y = vec3 0 1 0"

definition UNIT_Z :: vec3 where
  "UNIT_Z = vec3 0 0 1"

subsection \<open>SDK and host data types\<close>

text \<open>
  Modelled from the spec: the SDK's \<^verbatim>\<open>ovrHandType\<close>, \<^verbatim>\<open>ovrPoseStatef\<close>, the host's
  \<^verbatim>\<open>controller::Pose\<close> and the \<^verbatim>\<open>toGlm\<close> conversions (OculusHelpers.h) are declared
  outside src/. The raw pose carries position, orientation, linear and angular velocity;
  the output pose carries translation, rotation, velocity, angular velocity and validity.
\<close>

text \<open>A C enum is an integer: values other than the two named hands can be passed.\<close>

type_synonym ovrHandType = "32 word"

definition ovrHand_Left :: ovrHandType where
  "ovrHand_Left = 0"

definition ovrHand_Right :: ovrHandType where
  "ovrHand_Right = 1"

definition ovrHand_Count :: ovrHandType where
  "ovrHand_Count = 2"

text \<open>\<^verbatim>\<open>ovrVector3f\<close> holds x, y, z; \<^verbatim>\<open>ovrQuatf\<close> holds x, y, z, w in this order.\<close>

datatype ovrVector3f = ovrVector3f real real real

datatype ovrQuatf = ovrQuatf real real real real

record ovrPosef =
  Orientation :: ovrQuatf
  Position :: ovrVector3f

record ovrPoseStatef =
  ThePose :: ovrPosef
  AngularVelocity :: ovrVector3f
  LinearVelocity :: ovrVector3f
  AngularAcceleration :: ovrVector3f
  LinearAcceleration :: ovrVector3f
  TimeInSeconds :: real

fun toGlm_vec3 :: "ovrVector3f \<Rightarrow> vec3" where
  "toGlm_vec3 (ovrVector3f x y z) = vec3 x y z"

fun toGlm_quat :: "ovrQuatf \<Rightarrow> quat" where
  "toGlm_quat (ovrQuatf x y z w) = quat w x y z"

record Pose =
  translation :: vec3
  rotation :: quat
  velocity :: vec3
  angularVelocity :: vec3
  valid :: bool

text \<open>
  The default-constructed \<^verbatim>\<open>controller::Pose\<close>: zero vectors, identity rotation, not
  valid. The function assigns every field before it returns the pose.
\<close>

definition Pose_default :: Pose where
  "Pose_default =
     \<lparr>translation = vec3 0 0 0, rotation = quat 1 0 0 0, velocity = vec3 0 0 0,
      angularVelocity = vec3 0 0 0, valid = False\<rparr>"

subsection \<open>The function-local constants (lines 250 to 266)\<close>

definition yFlip :: quat where
  "yFlip = angleAxis PI UNIT_Y"

definition quarterX :: quat where
  "quarterX = angleAxis PI_OVER_TWO UNIT_X"

definition touchToHand :: quat where
  "touchToHand = quat_mul yFlip quarterX"

definition leftQuarterZ :: quat where
  "leftQuarterZ = angleAxis (- PI_OVER_TWO) UNIT_Z"

definition rightQuarterZ :: quat where
  "rightQuarterZ = angleAxis PI_OVER_TWO UNIT_Z"

definition eighthX :: quat where
  "eighthX = angleAxis (PI / 4.0) UNIT_X"

definition leftRotationOffset :: quat where
  "leftRotationOffset = quat_mul (quat_inverse (quat_mul leftQuarterZ eighthX)) touchToHand"

definition rightRotationOffset :: quat where
  "rightRotationOffset = quat_mul (quat_inverse (quat_mul rightQuarterZ eighthX)) touchToHand"

definition CONTROLLER_LENGTH_OFFSET :: real where
  "CONTROLLER_LENGTH_OFFSET = 0.0762"

definition CONTROLLER_OFFSET :: vec3 where
  "CONTROLLER_OFFSET = vec3 (CONTROLLER_LENGTH_OFFSET / 2.0)
                            (CONTROLLER_LENGTH_OFFSET / 2.0)
                            (CONTROLLER_LENGTH_OFFSET * 2.0)"

definition leftTranslationOffset :: vec3 where
  "leftTranslationOffset = vec3_mul (vec3 (- 1.0) 1.0 1.0) CONTROLLER_OFFSET"

definition rightTranslationOffset :: vec3 where
  "rightTranslationOffset = CONTROLLER_OFFSET"

subsection \<open>ovrControllerPoseToHandPose (lines 268 to 280)\<close>

definition ovrControllerPoseToHandPose :: "ovrHandType \<Rightarrow> ovrPoseStatef \<Rightarrow> Pose" where
  "ovrControllerPoseToHandPose hand handPose =
     (let translationOffset =
            (if hand = ovrHand_Left then leftTranslationOffset else rightTranslationOffset);
          rotationOffset =
            (if hand = ovrHand_Left then leftRotationOffset else rightRotationOffset);
          rot = toGlm_quat (Orientation (ThePose handPose));
          pose = Pose_default;
          pose = pose\<lparr>translation := toGlm_vec3 (Position (ThePose handPose))\<rparr>;
          pose = pose\<lparr>translation := vec3_add (translation pose) (quat_rotate rot translationOffset)\<rparr>;
          pose = pose\<lparr>rotation := quat_mul rot rotationOffset\<rparr>;
          pose = pose\<lparr>angularVelocity := toGlm_vec3 (AngularVelocity handPose)\<rparr>;
          pose = pose\<lparr>velocity := toGlm_vec3 (LinearVelocity handPose)\<rparr>;
          pose = pose\<lparr>valid := True\<rparr>
      in pose)"

subsection \<open>The function on static storage\<close>

text \<open>
  The file keeps mutable statics: the session reference count, the session handle (0 is
  the null pointer), the DLL path buffer of \<^verbatim>\<open>MAX_PATH\<close> wide characters, and the
  once-flag and result of \<^verbatim>\<open>oculusAvailable\<close>. The pose function adds its own
  block-scope \<^verbatim>\<open>static const\<close> objects of lines 250 to 266. Those with a computed
  initialiser are set when control first passes their declaration and are read from
  storage afterwards; \<^verbatim>\<open>None\<close> stands for not yet initialised.
  \<^verbatim>\<open>CONTROLLER_LENGTH_OFFSET\<close> has a literal initialiser, is set before any call, and
  stays the constant defined above.
\<close>

record static_storage =
  refCount :: "32 word"
  session :: "64 word"
  FOUND_PATH :: "16 word list"
  oculusAvailable_once :: bool
  oculusAvailable_result :: bool
  st_yFlip :: "quat option"
  st_quarterX :: "quat option"
  st_touchToHand :: "quat option"
  st_leftQuarterZ :: "quat option"
  st_rightQuarterZ :: "quat option"
  st_eighthX :: "quat option"
  st_leftRotationOffset :: "quat option"
  st_rightRotationOffset :: "quat option"
  st_CONTROLLER_OFFSET :: "vec3 option"
  st_leftTranslationOffset :: "vec3 option"
  st_rightTranslationOffset :: "vec3 option"

text \<open>
  One declaration \<^verbatim>\<open>static const T name = initialiser;\<close>: the stored value if there is
  one, otherwise the initialiser, which is then stored.
\<close>

definition static_const ::
    "('s \<Rightarrow> 'a option) \<Rightarrow> ('a option \<Rightarrow> 's \<Rightarrow> 's) \<Rightarrow> 'a \<Rightarrow> 's \<Rightarrow> 'a \<times> 's" where
  "static_const get put initialiser s =
     (case get s of
        Some v \<Rightarrow> (v, s)
      | None \<Rightarrow> (initialiser, put (Some initialiser) s))"

text \<open>
  The function as it runs on the storage: the declarations in source order, each
  initialiser reading the values the earlier declarations yielded, then lines 268 to 280.
\<close>

definition ovrControllerPoseToHandPose_st ::
    "ovrHandType \<Rightarrow> ovrPoseStatef \<Rightarrow> static_storage \<Rightarrow> Pose \<times> static_storage" where
  "ovrControllerPoseToHandPose_st hand handPose s0 =
     (let (yFlip', s) = static_const st_yFlip (\<lambda>v s. s\<lparr>st_yFlip := v\<rparr>)
            (angleAxis PI UNIT_Y) s0;
          (quarterX', s) = static_const st_quarterX (\<lambda>v s. s\<lparr>st_quarterX := v\<rparr>)
            (angleAxis PI_OVER_TWO UNIT_X) s;
          (touchToHand', s) = static_const st_touchToHand (\<lambda>v s. s\<lparr>st_touchToHand := v\<rparr>)
            (quat_mul yFlip' quarterX') s;
          (leftQuarterZ', s) = static_const st_leftQuarterZ (\<lambda>v s. s\<lparr>st_leftQuarterZ := v\<rparr>)
            (angleAxis (- PI_OVER_TWO) UNIT_Z) s;
          (rightQuarterZ', s) = static_const st_rightQuarterZ (\<lambda>v s. s\<lparr>st_rightQuarterZ := v\<rparr>)
            (angleAxis PI_OVER_TWO UNIT_Z) s;
          (eighthX', s) = static_const st_eighthX (\<lambda>v s. s\<lparr>st_eighthX := v\<rparr>)
            (angleAxis (PI / 4.0) UNIT_X) s;
          (leftRotationOffset', s) =
            static_const st_leftRotationOffset (\<lambda>v s. s\<lparr>st_leftRotationOffset := v\<rparr>)
              (quat_mul (quat_inverse (quat_mul leftQuarterZ' eighthX')) touchToHand') s;
          (rightRotationOffset', s) =
            static_const st_rightRotationOffset (\<lambda>v s. s\<lparr>st_rightRotationOffset := v\<rparr>)
              (quat_mul (quat_inverse (quat_mul rightQuarterZ' eighthX')) touchToHand') s;
          (CONTROLLER_OFFSET', s) =
            static_const st_CONTROLLER_OFFSET (\<lambda>v s. s\<lparr>st_CONTROLLER_OFFSET := v\<rparr>)
              (vec3 (CONTROLLER_LENGTH_OFFSET / 2.0) (CONTROLLER_LENGTH_OFFSET / 2.0)
                    (CONTROLLER_LENGTH_OFFSET * 2.0)) s;
          (leftTranslationOffset', s) =
            static_const st_leftTranslationOffset (\<lambda>v s. s\<lparr>st_leftTranslationOffset := v\<rparr>)
              (vec3_mul (vec3 (- 1.0) 1.0 1.0) CONTROLLER_OFFSET') s;
          (rightTranslationOffset', s) =
            static_const st_rightTranslationOffset (\<lambda>v s. s\<lparr>st_rightTranslationOffset := v\<rparr>)
              CONTROLLER_OFFSET' s;
          translationOffset =
            (if hand = ovrHand_Left then leftTranslationOffset' else rightTranslationOffset');
          rotationOffset =
            (if hand = ovrHand_Left then leftRotationOffset' else rightRotationOffset');
          rot = toGlm_quat (Orientation (ThePose handPose));
          pose = Pose_default;
          pose = pose\<lparr>translation := toGlm_vec3 (Position (ThePose handPose))\<rparr>;
          pose = pose\<lparr>translation := vec3_add (translation pose) (quat_rotate rot translationOffset)\<rparr>;
          pose = pose\<lparr>rotation := quat_mul rot rotationOffset\<rparr>;
          pose = pose\<lparr>angularVelocity := toGlm_vec3 (AngularVelocity handPose)\<rparr>;
          pose = pose\<lparr>velocity := toGlm_vec3 (LinearVelocity handPose)\<rparr>;
          pose = pose\<lparr>valid := True\<rparr>
      in (pose, s))"

text \<open>
  The storage when the program starts: zero-initialised file statics and no block-scope
  constant initialised yet.
\<close>

definition storage_at_start :: static_storage where
  "storage_at_start =
     \<lparr>refCount = 0, session = 0, FOUND_PATH = replicate 260 0,
      oculusAvailable_once = False, oculusAvailable_result = False,
      st_yFlip = None, st_quarterX = None, st_touchToHand = None, st_leftQuarterZ = None,
      st_rightQuarterZ = None, st_eighthX = None, st_leftRotationOffset = None,
      st_rightRotationOffset = None, st_CONTROLLER_OFFSET = None,
      st_leftTranslationOffset = None, st_rightTranslationOffset = None\<rparr>"

text \<open>
  The storages a run can reach: the start; any change the rest of the file makes, which
  can name the file-scope statics only; and a call of the pose function.
\<close>

inductive reachable :: "static_storage \<Rightarrow> bool" where
  program_start: "reachable storage_at_start"
| other_code: "reachable s \<Longrightarrow>
     reachable (s\<lparr>refCount := r, session := h, FOUND_PATH := path,
                  oculusAvailable_once := a, oculusAvailable_result := b\<rparr>)"
| pose_call: "reachable s \<Longrightarrow>
     reachable (snd (ovrControllerPoseToHandPose_st hand handPose s))"

text \<open>
  Every block-scope constant is either not yet initialised or holds the value of its
  initialiser; and the storage in which all of them hold it.
\<close>

definition statics_ok :: "static_storage \<Rightarrow> bool" where
  "statics_ok s \<longleftrightarrow>
     (st_yFlip s = None \<or> st_yFlip s = Some yFlip)
     \<and> (st_quarterX s = None \<or> st_quarterX s = Some quarterX)
     \<and> (st_touchToHand s = None \<or> st_touchToHand s = Some touchToHand)
     \<and> (st_leftQuarterZ s = None \<or> st_leftQuarterZ s = Some leftQuarterZ)
     \<and> (st_rightQuarterZ s = None \<or> st_rightQuarterZ s = Some rightQuarterZ)
     \<and> (st_eighthX s = None \<or> st_eighthX s = Some eighthX)
     \<and> (st_leftRotationOffset s = None \<or> st_leftRotationOffset s = Some leftRotationOffset)
     \<and> (st_rightRotationOffset s = None \<or> st_rightRotationOffset s = Some rightRotationOffset)
     \<and> (st_CONTROLLER_OFFSET s = None \<or> st_CONTROLLER_OFFSET s = Some CONTROLLER_OFFSET)
     \<and> (st_leftTranslationOffset s = None
          \<or> st_leftTranslationOffset s = Some leftTranslationOffset)
     \<and> (st_rightTranslationOffset s = None
          \<or> st_rightTranslationOffset s = Some rightTranslationOffset)"

definition all_initialised :: "static_storage \<Rightarrow> static_storage" where
  "all_initialised s =
     s\<lparr>st_yFlip := Some yFlip, st_quarterX := Some quarterX,
       st_touchToHand := Some touchToHand, st_leftQuarterZ := Some leftQuarterZ,
       st_rightQuarterZ := Some rightQuarterZ, st_eighthX := Some eighthX,
       st_leftRotationOffset := Some leftRotationOffset,
       st_rightRotationOffset := Some rightRotationOffset,
       st_CONTROLLER_OFFSET := Some CONTROLLER_OFFSET,
       st_leftTranslationOffset := Some leftTranslationOffset,
       st_rightTranslationOffset := Some rightTranslationOffset\<rparr>"

subsection \<open>The derivation and the scenario as the specification words them\<close>

text \<open>
  These definitions follow the specification's sentences, not the source, and are only
  compared with the constants above. Angles are given in degrees; the axis of the
  per-hand mount rotation is a parameter, so that the derivation can be read with the
  vertical axis (Y) and with the axis the source uses.
\<close>

definition degrees :: "real \<Rightarrow> real" where
  "degrees d = d * pi / 180"

definition spec_touchToHand :: quat where
  "spec_touchToHand = quat_mul (angleAxis (degrees 180) UNIT_Y) (angleAxis (degrees 90) UNIT_X)"

definition spec_handMountOffset :: "vec3 \<Rightarrow> real \<Rightarrow> quat" where
  "spec_handMountOffset axis d =
     quat_mul (angleAxis (degrees d) axis) (angleAxis (degrees 45) UNIT_X)"

definition spec_rotationOffset :: "vec3 \<Rightarrow> real \<Rightarrow> quat" where
  "spec_rotationOffset axis d =
     quat_mul (quat_inverse (spec_handMountOffset axis d)) spec_touchToHand"

text \<open>
  The translation offset as worded: 0.0762 along the length axis z, half of it along the
  lateral axes x and y; the left constant negates both lateral components.
\<close>

definition spec_rightTranslationOffset :: vec3 where
  "spec_rightTranslationOffset = vec3 (0.0762 / 2) (0.0762 / 2) 0.0762"

definition spec_mirror_lateral :: "vec3 \<Rightarrow> vec3" where
  "spec_mirror_lateral v = vec3 (- vx v) (- vy v) (vz v)"

text \<open>
  The concrete scenario: identity orientation, zero position, linear velocity (1,0,0),
  zero angular velocity. The fields the function never reads are set to zero.
\<close>

definition scenario_rawPose :: ovrPoseStatef where
  "scenario_rawPose =
     \<lparr>ThePose = \<lparr>Orientation = ovrQuatf 0 0 0 1, Position = ovrVector3f 0 0 0\<rparr>,
      AngularVelocity = ovrVector3f 0 0 0, LinearVelocity = ovrVector3f 1 0 0,
      AngularAcceleration = ovrVector3f 0 0 0, LinearAcceleration = ovrVector3f 0 0 0,
      TimeInSeconds = 0\<rparr>"

subsection \<open>Distance of quaternions and rounded arithmetic\<close>

text \<open>The componentwise difference, used to measure how far two quaternions are apart.\<close>

definition quat_sub :: "quat \<Rightarrow> quat \<Rightarrow> quat" where
  "quat_sub a b = quat (qw a - qw b) (qx a - qx b) (qy a - qy b) (qz a - qz b)"

text \<open>
  An orientation the device can deliver: (x, y, z, w) = (0.6f, 0, 0.8f, 0) with the
  float32 values nearest 0.6 and 0.8. Its length is close to 1 and not equal to 1.
\<close>

definition float32_orientation :: ovrQuatf where
  "float32_orientation = ovrQuatf (10066330 / 16777216) 0 (13421773 / 16777216) 0"

definition float32_rawPose :: ovrPoseStatef where
  "float32_rawPose =
     scenario_rawPose\<lparr>ThePose := \<lparr>Orientation = float32_orientation,
                                    Position = ovrVector3f 1 2 3\<rparr>\<rparr>"

text \<open>
  The standard model of floating-point arithmetic: an operation whose exact result is x
  delivers x (1 + d) + n, where the relative error d is bounded by the unit roundoff u and
  the absolute error n by the underflow unit. For float32 with rounding to nearest
  u = 2^-24 and n at most 2^-149. A rounding is the pair (d, n); overflow is not covered.
\<close>

type_synonym rounding = "real \<times> real"

definition fl :: "rounding \<Rightarrow> real \<Rightarrow> real" where
  "fl e x = x * (1 + fst e) + snd e"

definition rounding_ok :: "real \<Rightarrow> real \<Rightarrow> rounding \<Rightarrow> bool" where
  "rounding_ok u \<nu> e \<longleftrightarrow> \<bar>fst e\<bar> \<le> u \<and> \<bar>snd e\<bar> \<le> \<nu>"

text \<open>
  \<^verbatim>\<open>quat * quat\<close> with every multiplication, addition and subtraction rounded, in the
  order the expressions of \<open>quat_mul\<close> are written; \<open>e i\<close> is the rounding of the i-th
  operation.
\<close>

definition quat_mul_fl :: "(nat \<Rightarrow> rounding) \<Rightarrow> quat \<Rightarrow> quat \<Rightarrow> quat" where
  "quat_mul_fl e p q = quat
     (fl (e 6) (fl (e 4) (fl (e 2) (fl (e 0) (qw p * qw q) - fl (e 1) (qx p * qx q))
        - fl (e 3) (qy p * qy q)) - fl (e 5) (qz p * qz q)))
     (fl (e 13) (fl (e 11) (fl (e 9) (fl (e 7) (qw p * qx q) + fl (e 8) (qx p * qw q))
        + fl (e 10) (qy p * qz q)) - fl (e 12) (qz p * qy q)))
     (fl (e 20) (fl (e 18) (fl (e 16) (fl (e 14) (qw p * qy q) + fl (e 15) (qy p * qw q))
        + fl (e 17) (qz p * qx q)) - fl (e 19) (qx p * qz q)))
     (fl (e 27) (fl (e 25) (fl (e 23) (fl (e 21) (qw p * qz q) + fl (e 22) (qz p * qw q))
        + fl (e 24) (qx p * qy q)) - fl (e 26) (qy p * qx q)))"

text \<open>
  The error bound of one component: four rounded products of magnitude at most m, summed
  by three rounded additions.
\<close>

definition dot4_err :: "real \<Rightarrow> real \<Rightarrow> real \<Rightarrow> real" where
  "dot4_err u \<nu> m =
     (let e1 = u * m + \<nu>;
          e2 = e1 + e1 + u * (m + m + e1 + e1) + \<nu>;
          e3 = e2 + e1 + u * (2 * m + m + e2 + e1) + \<nu>;
          e4 = e3 + e1 + u * (3 * m + m + e3 + e1) + \<nu>
      in e4)"

section \<open>Properties\<close>

subsection \<open>Quaternion algebra\<close>

lemma quat_dot_mul:
  "quat_dot (quat_mul p q) (quat_mul p q) = quat_dot p p * quat_dot q q"
  by (simp add: quat_dot_def quat_mul_def algebra_simps)

lemma quat_dot_conjugate: "quat_dot (conjugate q) (conjugate q) = quat_dot q q"
  by (simp add: quat_dot_def conjugate_def)

lemma quat_inverse_unit: "quat_dot q q = 1 \<Longrightarrow> quat_inverse q = conjugate q"
  by (simp add: quat_inverse_def Let_def)

lemma angleAxis_unit:
  assumes "vx v * vx v + vy v * vy v + vz v * vz v = 1"
  shows "quat_dot (angleAxis a v) (angleAxis a v) = 1"
proof -
  let ?s = "sin (a * 0.5)" and ?c = "cos (a * 0.5)"
  have "quat_dot (angleAxis a v) (angleAxis a v)
        = (vx v * vx v + vy v * vy v + vz v * vz v) * (?s * ?s) + ?c * ?c"
    by (simp add: quat_dot_def angleAxis_def Let_def algebra_simps)
  also have "\<dots> = 1"
    using assms by (simp add: add.commute)
  finally show ?thesis .
qed

lemma offset_unit:
  assumes "quat_dot m m = 1" and "quat_dot t t = 1"
  shows "quat_dot (quat_mul (quat_inverse m) t) (quat_mul (quat_inverse m) t) = 1"
  using assms by (simp add: quat_dot_mul quat_inverse_unit quat_dot_conjugate)

lemma quat_mul_identity_left: "quat_mul (quat 1 0 0 0) q = q"
  by (cases q) (simp add: quat_mul_def)

lemma quat_rotate_identity: "quat_rotate (quat 1 0 0 0) v = v"
  by (cases v) (simp add: quat_rotate_def cross_def vec3_add_def vec3_scale_def Let_def)

lemma vec3_add_zero_left: "vec3_add (vec3 0 0 0) v = v"
  by (cases v) (simp add: vec3_add_def)

text \<open>
  The cross-product formula of \<open>quat_rotate\<close> is the rotation by the quaternion: on a
  unit quaternion it agrees with conjugating the pure quaternion of the vector.
\<close>

lemma quat_rotate_conjugation:
  assumes "quat_dot q q = 1"
  shows "quat_mul (quat_mul q (quat 0 (vx v) (vy v) (vz v))) (conjugate q)
     = quat 0 (vx (quat_rotate q v)) (vy (quat_rotate q v)) (vz (quat_rotate q v))"
proof -
  obtain w x y z where q: "q = quat w x y z" by (cases q)
  obtain a b c where v: "v = vec3 a b c" by (cases v)
  define n where "n = x * x + y * y + (z * z + w * w)"
  have n1: "n = 1" using assms by (simp add: n_def q quat_dot_def)
  have "quat_mul (quat_mul q (quat 0 a b c)) (conjugate q)
        = quat 0
            (vx (quat_rotate q v) + a * (n - 1))
            (vy (quat_rotate q v) + b * (n - 1))
            (vz (quat_rotate q v) + c * (n - 1))"
    unfolding n_def q v
    by (simp add: quat_rotate_def cross_def vec3_add_def vec3_scale_def Let_def
        quat_mul_def conjugate_def algebra_simps)
  then show ?thesis by (simp add: n1 v)
qed

subsection \<open>Values of the rotation constants\<close>

lemma degrees_simps:
  "degrees 180 = PI" "degrees 90 = PI_OVER_TWO" "degrees (- 90) = - PI_OVER_TWO"
  "degrees 45 = PI / 4.0"
  by (simp_all add: degrees_def PI_def PI_OVER_TWO_def)

lemma sqrt2_sqrt2_mult: "sqrt 2 * (sqrt 2 * x) = 2 * x"
  by (simp add: mult.assoc [symmetric])

lemma yFlip_value: "yFlip = quat 0 0 1 0"
  by (simp add: yFlip_def angleAxis_def PI_def UNIT_Y_def Let_def)

lemma quarterX_value: "quarterX = quat (sqrt 2 / 2) (sqrt 2 / 2) 0 0"
  by (simp add: quarterX_def angleAxis_def PI_def PI_OVER_TWO_def UNIT_X_def Let_def
      cos_45 sin_45)

lemma touchToHand_value: "touchToHand = quat 0 0 (sqrt 2 / 2) (- (sqrt 2 / 2))"
  by (simp add: touchToHand_def yFlip_value quarterX_value quat_mul_def)

lemma leftQuarterZ_value: "leftQuarterZ = quat (sqrt 2 / 2) 0 0 (- (sqrt 2 / 2))"
  by (simp add: leftQuarterZ_def angleAxis_def PI_def PI_OVER_TWO_def UNIT_Z_def Let_def
      cos_45 sin_45)

lemma rightQuarterZ_value: "rightQuarterZ = quat (sqrt 2 / 2) 0 0 (sqrt 2 / 2)"
  by (simp add: rightQuarterZ_def angleAxis_def PI_def PI_OVER_TWO_def UNIT_Z_def Let_def
      cos_45 sin_45)

lemma eighthX_value: "eighthX = quat (cos (pi / 8)) (sin (pi / 8)) 0 0"
  by (simp add: eighthX_def angleAxis_def PI_def UNIT_X_def Let_def)

lemma mount_Z_unit:
  "quat_dot (quat_mul leftQuarterZ eighthX) (quat_mul leftQuarterZ eighthX) = 1"
  "quat_dot (quat_mul rightQuarterZ eighthX) (quat_mul rightQuarterZ eighthX) = 1"
  by (simp_all add: quat_dot_mul leftQuarterZ_def rightQuarterZ_def eighthX_def
      angleAxis_unit UNIT_Z_def UNIT_X_def)

lemma touchToHand_unit: "quat_dot touchToHand touchToHand = 1"
  by (simp add: touchToHand_def yFlip_def quarterX_def quat_dot_mul angleAxis_unit
      UNIT_X_def UNIT_Y_def)

lemma rotationOffsets_unit:
  "quat_dot leftRotationOffset leftRotationOffset = 1"
  "quat_dot rightRotationOffset rightRotationOffset = 1"
proof -
  show "quat_dot leftRotationOffset leftRotationOffset = 1"
    unfolding leftRotationOffset_def
    by (rule offset_unit [OF mount_Z_unit(1) touchToHand_unit])
  show "quat_dot rightRotationOffset rightRotationOffset = 1"
    unfolding rightRotationOffset_def
    by (rule offset_unit [OF mount_Z_unit(2) touchToHand_unit])
qed

lemma leftRotationOffset_value:
  "leftRotationOffset =
     quat ((cos (pi / 8) - sin (pi / 8)) / 2) (- ((cos (pi / 8) + sin (pi / 8)) / 2))
          ((cos (pi / 8) - sin (pi / 8)) / 2) (- ((cos (pi / 8) + sin (pi / 8)) / 2))"
  unfolding leftRotationOffset_def quat_inverse_unit [OF mount_Z_unit(1)]
  unfolding leftQuarterZ_value eighthX_value touchToHand_value
  by (simp add: quat_mul_def conjugate_def algebra_simps sqrt2_sqrt2_mult)

lemma rightRotationOffset_value:
  "rightRotationOffset =
     quat ((sin (pi / 8) - cos (pi / 8)) / 2) ((cos (pi / 8) + sin (pi / 8)) / 2)
          ((cos (pi / 8) - sin (pi / 8)) / 2) (- ((cos (pi / 8) + sin (pi / 8)) / 2))"
  unfolding rightRotationOffset_def quat_inverse_unit [OF mount_Z_unit(2)]
  unfolding rightQuarterZ_value eighthX_value touchToHand_value
  by (simp add: quat_mul_def conjugate_def algebra_simps sqrt2_sqrt2_mult)

subsection \<open>The fields of the returned pose\<close>

lemma hands_distinct: "ovrHand_Right \<noteq> ovrHand_Left" "ovrHand_Count \<noteq> ovrHand_Left"
  by (simp_all add: ovrHand_Right_def ovrHand_Left_def ovrHand_Count_def)

lemma pose_rotation:
  "rotation (ovrControllerPoseToHandPose hand handPose)
     = quat_mul (toGlm_quat (Orientation (ThePose handPose)))
         (if hand = ovrHand_Left then leftRotationOffset else rightRotationOffset)"
  by (simp add: ovrControllerPoseToHandPose_def Let_def)

lemma pose_translation:
  "translation (ovrControllerPoseToHandPose hand handPose)
     = vec3_add (toGlm_vec3 (Position (ThePose handPose)))
         (quat_rotate (toGlm_quat (Orientation (ThePose handPose)))
            (if hand = ovrHand_Left then leftTranslationOffset else rightTranslationOffset))"
  by (simp add: ovrControllerPoseToHandPose_def Let_def)

subsection \<open>Composition with the selected offsets\<close>

text \<open>
  C1. For every raw pose and for both hands, the returned rotation is the raw orientation
  multiplied on the right by the hand's rotation offset, and the returned translation is
  the raw position plus the hand's translation offset rotated by the raw orientation.
\<close>

theorem corrected_pose_composition:
  "rotation (ovrControllerPoseToHandPose ovrHand_Left handPose)
     = quat_mul (toGlm_quat (Orientation (ThePose handPose))) leftRotationOffset
   \<and> translation (ovrControllerPoseToHandPose ovrHand_Left handPose)
     = vec3_add (toGlm_vec3 (Position (ThePose handPose)))
         (quat_rotate (toGlm_quat (Orientation (ThePose handPose))) leftTranslationOffset)
   \<and> rotation (ovrControllerPoseToHandPose ovrHand_Right handPose)
     = quat_mul (toGlm_quat (Orientation (ThePose handPose))) rightRotationOffset
   \<and> translation (ovrControllerPoseToHandPose ovrHand_Right handPose)
     = vec3_add (toGlm_vec3 (Position (ThePose handPose)))
         (quat_rotate (toGlm_quat (Orientation (ThePose handPose))) rightTranslationOffset)"
  by (simp add: pose_rotation pose_translation hands_distinct)

text \<open>
  C2. A raw pose with identity orientation and zero position is mapped, for each hand, to
  exactly that hand's rotation offset and translation offset; with linear velocity
  (1,0,0) and zero angular velocity the right hand's output is the pose made of the right
  offsets, velocity (1,0,0), zero angular velocity and valid set.
\<close>

theorem identity_pose_gives_offsets:
  assumes "Orientation (ThePose handPose) = ovrQuatf 0 0 0 1"
    and "Position (ThePose handPose) = ovrVector3f 0 0 0"
  shows "rotation (ovrControllerPoseToHandPose ovrHand_Left handPose) = leftRotationOffset
   \<and> translation (ovrControllerPoseToHandPose ovrHand_Left handPose) = leftTranslationOffset
   \<and> rotation (ovrControllerPoseToHandPose ovrHand_Right handPose) = rightRotationOffset
   \<and> translation (ovrControllerPoseToHandPose ovrHand_Right handPose) = rightTranslationOffset
   \<and> (LinearVelocity handPose = ovrVector3f 1 0 0 \<longrightarrow>
      AngularVelocity handPose = ovrVector3f 0 0 0 \<longrightarrow>
      ovrControllerPoseToHandPose ovrHand_Right handPose
        = \<lparr>translation = rightTranslationOffset, rotation = rightRotationOffset,
           velocity = vec3 1 0 0, angularVelocity = vec3 0 0 0, valid = True\<rparr>)"
proof -
  have r: "rotation (ovrControllerPoseToHandPose hand handPose)
      = (if hand = ovrHand_Left then leftRotationOffset else rightRotationOffset)" for hand
    by (simp add: pose_rotation assms quat_mul_identity_left)
  have t: "translation (ovrControllerPoseToHandPose hand handPose)
      = (if hand = ovrHand_Left then leftTranslationOffset else rightTranslationOffset)"
    for hand
    by (simp add: pose_translation assms quat_rotate_identity vec3_add_zero_left)
  have v: "velocity (ovrControllerPoseToHandPose hand handPose)
             = toGlm_vec3 (LinearVelocity handPose)"
    "angularVelocity (ovrControllerPoseToHandPose hand handPose)
       = toGlm_vec3 (AngularVelocity handPose)"
    "valid (ovrControllerPoseToHandPose hand handPose)" for hand
    by (simp_all add: ovrControllerPoseToHandPose_def Let_def)
  show ?thesis
    by (simp add: r t v hands_distinct Pose.equality)
qed

text \<open>The scenario itself, obtained from the theorem at \<open>scenario_rawPose\<close>.\<close>

theorem identity_pose_gives_offsets_witness:
  "ovrControllerPoseToHandPose ovrHand_Right scenario_rawPose
     = \<lparr>translation = rightTranslationOffset, rotation = rightRotationOffset,
        velocity = vec3 1 0 0, angularVelocity = vec3 0 0 0, valid = True\<rparr>
   \<and> rotation (ovrControllerPoseToHandPose ovrHand_Left scenario_rawPose) = leftRotationOffset
   \<and> translation (ovrControllerPoseToHandPose ovrHand_Left scenario_rawPose)
       = leftTranslationOffset"
  using identity_pose_gives_offsets [of scenario_rawPose]
  by (simp add: scenario_rawPose_def)

subsection \<open>Derivation of the rotation offsets\<close>

lemma spec_touchToHand_eq: "spec_touchToHand = touchToHand"
  by (simp add: spec_touchToHand_def touchToHand_def yFlip_def quarterX_def degrees_simps)

lemma mount_Y_left_value:
  "spec_handMountOffset UNIT_Y (- 90)
     = quat (sqrt 2 / 2 * cos (pi / 8)) (sqrt 2 / 2 * sin (pi / 8))
            (- (sqrt 2 / 2 * cos (pi / 8))) (sqrt 2 / 2 * sin (pi / 8))"
  by (simp add: spec_handMountOffset_def degrees_def angleAxis_def Let_def UNIT_Y_def
      UNIT_X_def quat_mul_def cos_45 sin_45)

lemma mount_Y_unit:
  "quat_dot (spec_handMountOffset UNIT_Y d) (spec_handMountOffset UNIT_Y d) = 1"
  by (simp add: spec_handMountOffset_def quat_dot_mul angleAxis_unit UNIT_Y_def UNIT_X_def)

lemma spec_rotationOffset_Y_left_w:
  "qw (spec_rotationOffset UNIT_Y (- 90)) = - ((cos (pi / 8) + sin (pi / 8)) / 2)"
  unfolding spec_rotationOffset_def quat_inverse_unit [OF mount_Y_unit]
  unfolding spec_touchToHand_eq touchToHand_value mount_Y_left_value
  by (simp add: quat_mul_def conjugate_def algebra_simps sqrt2_sqrt2_mult)

text \<open>
  C3, as worded: the left mount offset turns by -90 degrees about the vertical axis Y.
  The source turns about Z (\<open>leftQuarterZ\<close>), and the two derivations give different
  left rotation offsets: their w components are (cos 22.5 - sin 22.5)/2 and
  -(cos 22.5 + sin 22.5)/2.
\<close>

theorem mount_about_vertical_axis_counterexample:
  "leftRotationOffset \<noteq> spec_rotationOffset UNIT_Y (- 90)"
proof
  assume "leftRotationOffset = spec_rotationOffset UNIT_Y (- 90)"
  then have "qw leftRotationOffset = qw (spec_rotationOffset UNIT_Y (- 90))"
    by simp
  then have "(cos (pi / 8) - sin (pi / 8)) / 2 = - ((cos (pi / 8) + sin (pi / 8)) / 2)"
    by (simp only: leftRotationOffset_value spec_rotationOffset_Y_left_w quat.sel)
  then have "cos (pi / 8) = 0"
    by (simp add: field_simps)
  moreover have "0 < cos (pi / 8)"
    by (rule cos_gt_zero) simp_all
  ultimately show False by simp
qed

text \<open>
  C3, amended: touchToHand is the 180 degree turn about Y composed with the 90 degree
  turn about X; each hand's mount offset is the turn by -90 (left) or +90 (right) degrees
  about the Z axis composed with the 45 degree turn about X; and each rotation offset is
  the inverse of the hand's mount offset times touchToHand.
\<close>

theorem rotation_offsets_derivation:
  "touchToHand = spec_touchToHand
   \<and> leftRotationOffset = spec_rotationOffset UNIT_Z (- 90)
   \<and> rightRotationOffset = spec_rotationOffset UNIT_Z 90"
  by (simp add: spec_touchToHand_eq spec_rotationOffset_def spec_handMountOffset_def
      leftRotationOffset_def rightRotationOffset_def leftQuarterZ_def rightQuarterZ_def
      eighthX_def degrees_simps)

subsection \<open>The translation offsets\<close>

text \<open>
  C4, as worded: 0.0762 along the length axis, half of it along both lateral axes, and
  the left constant negating both lateral components. The source has twice 0.0762 along
  z and negates x only, so both parts fail.
\<close>

theorem translation_offsets_as_worded_counterexample:
  "rightTranslationOffset \<noteq> spec_rightTranslationOffset
   \<and> leftTranslationOffset \<noteq> spec_mirror_lateral rightTranslationOffset"
  by (simp add: leftTranslationOffset_def rightTranslationOffset_def vec3_mul_def
      CONTROLLER_OFFSET_def CONTROLLER_LENGTH_OFFSET_def spec_rightTranslationOffset_def
      spec_mirror_lateral_def)

text \<open>
  C4, amended: with L = 0.0762 the right translation offset is (L/2, L/2, 2 L), that is
  (0.0381, 0.0381, 0.1524), and the left one is the right one with only its x component
  negated.
\<close>

theorem translation_offsets_values:
  "CONTROLLER_LENGTH_OFFSET = 0.0762
   \<and> rightTranslationOffset
       = vec3 (CONTROLLER_LENGTH_OFFSET / 2) (CONTROLLER_LENGTH_OFFSET / 2)
           (2 * CONTROLLER_LENGTH_OFFSET)
   \<and> rightTranslationOffset = vec3 0.0381 0.0381 0.1524
   \<and> leftTranslationOffset
       = vec3 (- vx rightTranslationOffset) (vy rightTranslationOffset)
           (vz rightTranslationOffset)"
  by (simp add: leftTranslationOffset_def rightTranslationOffset_def vec3_mul_def
      CONTROLLER_OFFSET_def CONTROLLER_LENGTH_OFFSET_def)

text \<open>
  C5. The two translation offsets mirror each other in x: if the right one is (a, b, c),
  the left one is (-a, b, c).
\<close>

theorem translation_offsets_mirror_x:
  assumes "rightTranslationOffset = vec3 a b c"
  shows "leftTranslationOffset = vec3 (- a) b c"
proof -
  have h: "CONTROLLER_OFFSET = vec3 a b c"
    using assms by (simp add: rightTranslationOffset_def)
  show ?thesis
    unfolding leftTranslationOffset_def h by (simp add: vec3_mul_def)
qed

theorem translation_offsets_mirror_x_witness:
  "rightTranslationOffset = vec3 (381 / 10000) (381 / 10000) (1524 / 10000)
   \<and> leftTranslationOffset = vec3 (- (381 / 10000)) (381 / 10000) (1524 / 10000)"
proof -
  have h: "rightTranslationOffset = vec3 (381 / 10000) (381 / 10000) (1524 / 10000)"
    by (simp add: rightTranslationOffset_def CONTROLLER_OFFSET_def
        CONTROLLER_LENGTH_OFFSET_def)
  show ?thesis
    using h translation_offsets_mirror_x [OF h] by simp
qed

subsection \<open>Fields that do not depend on the offsets\<close>

text \<open>
  C6. For every raw pose and every handedness the output's linear velocity is the input's
  linear velocity and the output's angular velocity is the input's angular velocity,
  converted field by field and not otherwise changed.
\<close>

theorem velocities_pass_through:
  "velocity (ovrControllerPoseToHandPose hand handPose) = toGlm_vec3 (LinearVelocity handPose)
   \<and> angularVelocity (ovrControllerPoseToHandPose hand handPose)
       = toGlm_vec3 (AngularVelocity handPose)"
  by (simp add: ovrControllerPoseToHandPose_def Let_def)

text \<open>
  C7. For every raw pose and every handedness the returned pose is marked valid.
\<close>

theorem valid_always_true:
  "valid (ovrControllerPoseToHandPose hand handPose) = True"
  by (simp add: ovrControllerPoseToHandPose_def Let_def)

subsection \<open>Lengths and distances\<close>

lemma quat_dot_nonneg: "0 \<le> quat_dot a a"
  by (simp add: quat_dot_def)

lemma quat_length_nonneg: "0 \<le> quat_length a"
  by (simp add: quat_length_def quat_dot_nonneg)

lemma quat_length_mul: "quat_length (quat_mul p q) = quat_length p * quat_length q"
  by (simp add: quat_length_def quat_dot_mul real_sqrt_mult)

lemma rotationOffsets_length:
  "quat_length leftRotationOffset = 1" "quat_length rightRotationOffset = 1"
  by (simp_all add: quat_length_def rotationOffsets_unit)

lemma quat_dot_cauchy_schwarz: "(quat_dot a b)\<^sup>2 \<le> quat_dot a a * quat_dot b b"
proof -
  obtain w x y z where a: "a = quat w x y z" by (cases a)
  obtain w' x' y' z' where b: "b = quat w' x' y' z'" by (cases b)
  have "quat_dot a a * quat_dot b b - (quat_dot a b)\<^sup>2
        = (w * x' - x * w')\<^sup>2 + (w * y' - y * w')\<^sup>2 + (w * z' - z * w')\<^sup>2
          + (x * y' - y * x')\<^sup>2 + (x * z' - z * x')\<^sup>2 + (y * z' - z * y')\<^sup>2"
    by (simp add: a b quat_dot_def power2_eq_square algebra_simps)
  also have "0 \<le> \<dots>" by simp
  finally show ?thesis by simp
qed

lemma quat_dot_le_lengths: "quat_dot a b \<le> quat_length a * quat_length b"
proof -
  have "quat_dot a b \<le> \<bar>quat_dot a b\<bar>" by simp
  also have "\<dots> = sqrt ((quat_dot a b)\<^sup>2)" by simp
  also have "\<dots> \<le> sqrt (quat_dot a a * quat_dot b b)"
    by (simp only: real_sqrt_le_iff quat_dot_cauchy_schwarz)
  also have "\<dots> = quat_length a * quat_length b"
    by (simp add: quat_length_def real_sqrt_mult)
  finally show ?thesis .
qed

lemma quat_length_triangle_sub:
  "quat_length a \<le> quat_length (quat_sub a b) + quat_length b"
proof (unfold quat_length_def [of a], rule real_le_lsqrt)
  show "0 \<le> quat_length (quat_sub a b) + quat_length b"
    by (simp add: quat_length_nonneg)
  have "quat_dot a a = quat_dot (quat_sub a b) (quat_sub a b)
          + 2 * quat_dot (quat_sub a b) b + quat_dot b b"
    by (simp add: quat_dot_def quat_sub_def algebra_simps)
  also have "\<dots> \<le> (quat_length (quat_sub a b))\<^sup>2
          + 2 * (quat_length (quat_sub a b) * quat_length b) + (quat_length b)\<^sup>2"
    using quat_dot_le_lengths [of "quat_sub a b" b]
    by (simp add: quat_length_def quat_dot_nonneg)
  also have "\<dots> = (quat_length (quat_sub a b) + quat_length b)\<^sup>2"
    by (simp add: power2_sum)
  finally show "quat_dot a a \<le> (quat_length (quat_sub a b) + quat_length b)\<^sup>2" .
qed

lemma quat_length_sub_commute: "quat_length (quat_sub a b) = quat_length (quat_sub b a)"
  by (simp add: quat_length_def quat_dot_def quat_sub_def algebra_simps)

lemma quat_length_diff: "\<bar>quat_length a - quat_length b\<bar> \<le> quat_length (quat_sub a b)"
  using quat_length_triangle_sub [of a b] quat_length_triangle_sub [of b a]
  by (simp add: quat_length_sub_commute [of b a] abs_le_iff)

lemma quat_length_sub_self: "quat_length (quat_sub a a) = 0"
  by (simp add: quat_length_def quat_dot_def quat_sub_def)

lemma rotation_length:
  "quat_length (rotation (ovrControllerPoseToHandPose hand handPose))
     = quat_length (toGlm_quat (Orientation (ThePose handPose)))"
  by (simp add: pose_rotation quat_length_mul rotationOffsets_length)

subsection \<open>Length of the returned rotation\<close>

text \<open>
  C8. The returned rotation has the length of the raw orientation, for every handedness:
  both rotation offsets have length 1 and the length of a product is the product of the
  lengths. So a raw orientation that is a unit quaternion within a tolerance gives a
  rotation that is one within the same tolerance, and any quaternion within a further
  error of that rotation, such as the rounded float result, is a unit quaternion within
  the sum of the two.
\<close>

theorem rotation_length_within_tolerance:
  "quat_length (rotation (ovrControllerPoseToHandPose hand handPose))
     = quat_length (toGlm_quat (Orientation (ThePose handPose)))
   \<and> (\<bar>quat_length (toGlm_quat (Orientation (ThePose handPose))) - 1\<bar> \<le> tol \<longrightarrow>
        \<bar>quat_length (rotation (ovrControllerPoseToHandPose hand handPose)) - 1\<bar> \<le> tol
        \<and> (quat_length (quat_sub out (rotation (ovrControllerPoseToHandPose hand handPose)))
              \<le> err \<longrightarrow>
            \<bar>quat_length out - 1\<bar> \<le> tol + err))"
proof -
  let ?r = "rotation (ovrControllerPoseToHandPose hand handPose)"
  have "\<bar>quat_length out - 1\<bar> \<le> tol + err"
    if "\<bar>quat_length ?r - 1\<bar> \<le> tol" and "quat_length (quat_sub out ?r) \<le> err"
    using that quat_length_diff [of out ?r] by linarith
  then show ?thesis
    by (simp add: rotation_length)
qed

theorem rotation_length_within_tolerance_witness:
  "\<bar>quat_length (toGlm_quat float32_orientation) - 1\<bar> \<le> 1 / 2 ^ 25
   \<and> quat_length (toGlm_quat float32_orientation) \<noteq> 1
   \<and> (let r = rotation (ovrControllerPoseToHandPose ovrHand_Left float32_rawPose);
           out = quat (qw r + 1 / 2 ^ 24) (qx r) (qy r) (qz r)
       in \<bar>quat_length r - 1\<bar> \<le> 1 / 2 ^ 25
          \<and> quat_length (quat_sub out r) \<le> 1 / 2 ^ 24
          \<and> \<bar>quat_length out - 1\<bar> \<le> 1 / 2 ^ 25 + 1 / 2 ^ 24)"
proof -
  define r where "r = rotation (ovrControllerPoseToHandPose ovrHand_Left float32_rawPose)"
  define out where "out = quat (qw r + 1 / 2 ^ 24) (qx r) (qy r) (qz r)"
  have d: "quat_dot (toGlm_quat float32_orientation) (toGlm_quat float32_orientation)
             = 281474990132429 / 281474976710656"
    by (simp add: float32_orientation_def quat_dot_def)
  have up: "quat_length (toGlm_quat float32_orientation) \<le> 1 + 1 / 2 ^ 25"
    unfolding quat_length_def d by (rule real_le_lsqrt) (simp_all add: power2_eq_square)
  have lo: "1 < quat_length (toGlm_quat float32_orientation)"
    unfolding quat_length_def d
    using real_sqrt_less_iff [of 1 "281474990132429 / 281474976710656"] by simp
  have h: "\<bar>quat_length (toGlm_quat float32_orientation) - 1\<bar> \<le> 1 / 2 ^ 25"
    using up lo by (simp add: abs_le_iff)
  have o: "Orientation (ThePose float32_rawPose) = float32_orientation"
    by (simp add: float32_rawPose_def)
  have e0: "quat_sub out r = quat (1 / 2 ^ 24) 0 0 0"
    by (simp add: out_def quat_sub_def)
  have e: "quat_length (quat_sub out r) \<le> 1 / 2 ^ 24"
    unfolding e0 quat_length_def
    by (rule real_le_lsqrt) (simp_all add: quat_dot_def power2_eq_square)
  note t = rotation_length_within_tolerance
    [of ovrHand_Left float32_rawPose "1 / 2 ^ 25" out "1 / 2 ^ 24", folded r_def, unfolded o]
  have "\<bar>quat_length r - 1\<bar> \<le> 1 / 2 ^ 25
        \<and> \<bar>quat_length out - 1\<bar> \<le> 1 / 2 ^ 25 + 1 / 2 ^ 24"
    using t h e by blast
  then show ?thesis
    using h lo e unfolding Let_def r_def [symmetric] out_def [symmetric] by simp
qed

text \<open>
  The error the rounding of the product itself adds. Under the standard model the
  computed product is within twice \<open>dot4_err\<close> of the exact one, whatever the single
  roundings are; together with the theorem above this bounds the length of the float
  result, also when the stored offset is a rounded value of the exact constant.
\<close>

lemma quat_mul_fl_exact: "quat_mul_fl (\<lambda>_. (0, 0)) p q = quat_mul p q"
  by (simp add: quat_mul_fl_def quat_mul_def fl_def)

lemma fl_err:
  assumes "rounding_ok u \<nu> e"
  shows "\<bar>fl e x - x\<bar> \<le> u * \<bar>x\<bar> + \<nu>"
proof -
  have "fl e x - x = x * fst e + snd e"
    by (simp add: fl_def algebra_simps)
  then have "\<bar>fl e x - x\<bar> \<le> \<bar>x\<bar> * \<bar>fst e\<bar> + \<bar>snd e\<bar>"
    using abs_triangle_ineq [of "x * fst e" "snd e"] by (simp add: abs_mult)
  also have "\<dots> \<le> \<bar>x\<bar> * u + \<nu>"
    using assms by (intro add_mono mult_left_mono) (simp_all add: rounding_ok_def)
  finally show ?thesis by (simp add: mult.commute)
qed

lemma fl_product_err:
  assumes "rounding_ok u \<nu> e" and "\<bar>x\<bar> \<le> m" and "0 \<le> u"
  shows "\<bar>fl e x - x\<bar> \<le> u * m + \<nu>" "\<bar>- fl e x - (- x)\<bar> \<le> u * m + \<nu>"
proof -
  have "u * \<bar>x\<bar> \<le> u * m"
    using assms by (intro mult_left_mono) simp_all
  with fl_err [OF assms(1), of x] show "\<bar>fl e x - x\<bar> \<le> u * m + \<nu>"
    by linarith
  then show "\<bar>- fl e x - (- x)\<bar> \<le> u * m + \<nu>"
    by (simp add: abs_minus_commute)
qed

lemma fl_add_err:
  assumes "rounding_ok u \<nu> e" and "0 \<le> u"
    and "\<bar>a' - a\<bar> \<le> ea" and "\<bar>b' - b\<bar> \<le> eb" and "\<bar>a\<bar> \<le> ma" and "\<bar>b\<bar> \<le> mb"
  shows "\<bar>fl e (a' + b') - (a + b)\<bar> \<le> ea + eb + u * (ma + mb + ea + eb) + \<nu>"
proof -
  have s: "\<bar>a' + b'\<bar> \<le> ma + mb + ea + eb"
    using assms(3-6) by linarith
  have "u * \<bar>a' + b'\<bar> \<le> u * (ma + mb + ea + eb)"
    using s assms(2) by (intro mult_left_mono) simp_all
  with fl_err [OF assms(1), of "a' + b'"] assms(3,4) show ?thesis
    by linarith
qed

lemma sum4_err:
  assumes r: "rounding_ok u \<nu> ea" "rounding_ok u \<nu> eb" "rounding_ok u \<nu> ec" and u: "0 \<le> u"
    and t: "\<bar>T1 - X1\<bar> \<le> u * m + \<nu>" "\<bar>T2 - X2\<bar> \<le> u * m + \<nu>"
           "\<bar>T3 - X3\<bar> \<le> u * m + \<nu>" "\<bar>T4 - X4\<bar> \<le> u * m + \<nu>"
    and x: "\<bar>X1\<bar> \<le> m" "\<bar>X2\<bar> \<le> m" "\<bar>X3\<bar> \<le> m" "\<bar>X4\<bar> \<le> m"
  shows "\<bar>fl ec (fl eb (fl ea (T1 + T2) + T3) + T4) - (X1 + X2 + X3 + X4)\<bar> \<le> dot4_err u \<nu> m"
proof -
  define e1 where "e1 = u * m + \<nu>"
  define e2 where "e2 = e1 + e1 + u * (m + m + e1 + e1) + \<nu>"
  define e3 where "e3 = e2 + e1 + u * (2 * m + m + e2 + e1) + \<nu>"
  have s2: "\<bar>fl ea (T1 + T2) - (X1 + X2)\<bar> \<le> e2"
    unfolding e2_def e1_def by (rule fl_add_err [OF r(1) u t(1) t(2) x(1) x(2)])
  have m2: "\<bar>X1 + X2\<bar> \<le> 2 * m"
    using x(1,2) by linarith
  have s3: "\<bar>fl eb (fl ea (T1 + T2) + T3) - (X1 + X2 + X3)\<bar> \<le> e3"
    unfolding e3_def using fl_add_err [OF r(2) u s2 t(3) [folded e1_def] m2 x(3)] .
  have m3: "\<bar>X1 + X2 + X3\<bar> \<le> 3 * m"
    using x(1,2,3) by linarith
  have "dot4_err u \<nu> m = e3 + e1 + u * (3 * m + m + e3 + e1) + \<nu>"
    by (simp only: dot4_err_def Let_def e3_def e2_def e1_def)
  then show ?thesis
    using fl_add_err [OF r(3) u s3 t(4) [folded e1_def] m3 x(4)] by simp
qed

lemma component_le_length:
  "\<bar>qw a\<bar> \<le> quat_length a" "\<bar>qx a\<bar> \<le> quat_length a"
  "\<bar>qy a\<bar> \<le> quat_length a" "\<bar>qz a\<bar> \<le> quat_length a"
  unfolding quat_length_def quat_dot_def
  by (rule real_le_rsqrt, simp add: power2_eq_square)+

lemma product_le_lengths:
  assumes "\<bar>a\<bar> \<le> quat_length p" and "\<bar>b\<bar> \<le> quat_length q"
  shows "\<bar>a * b\<bar> \<le> quat_length p * quat_length q" "\<bar>- (a * b)\<bar> \<le> quat_length p * quat_length q"
  using assms by (simp_all add: abs_mult mult_mono)

lemma length_le_components:
  assumes "\<bar>qw a\<bar> \<le> E" "\<bar>qx a\<bar> \<le> E" "\<bar>qy a\<bar> \<le> E" "\<bar>qz a\<bar> \<le> E"
  shows "quat_length a \<le> 2 * E"
proof (unfold quat_length_def, rule real_le_lsqrt)
  have E: "0 \<le> E" using assms(1) by linarith
  then show "0 \<le> 2 * E" by simp
  have "(qw a)\<^sup>2 \<le> E\<^sup>2" "(qx a)\<^sup>2 \<le> E\<^sup>2" "(qy a)\<^sup>2 \<le> E\<^sup>2" "(qz a)\<^sup>2 \<le> E\<^sup>2"
    using assms E by (simp_all add: abs_le_square_iff [symmetric])
  then show "quat_dot a a \<le> (2 * E)\<^sup>2"
    by (simp add: quat_dot_def power2_eq_square)
qed

lemma quat_mul_fl_err:
  assumes ok: "\<And>i. rounding_ok u \<nu> (e i)" and u: "0 \<le> u"
  shows "quat_length (quat_sub (quat_mul_fl e p q) (quat_mul p q))
           \<le> 2 * dot4_err u \<nu> (quat_length p * quat_length q)"
proof (rule length_le_components)
  let ?m = "quat_length p * quat_length q"
  note pr = fl_product_err [OF ok _ u] 
  note pl = product_le_lengths [OF component_le_length(1) component_le_length(1)]
  have w: "\<bar>fl (e 6) (fl (e 4) (fl (e 2) (fl (e 0) (qw p * qw q) + - fl (e 1) (qx p * qx q))
        + - fl (e 3) (qy p * qy q)) + - fl (e 5) (qz p * qz q))
        - (qw p * qw q + - (qx p * qx q) + - (qy p * qy q) + - (qz p * qz q))\<bar> \<le> dot4_err u \<nu> ?m"
    by (rule sum4_err [OF ok ok ok u])
       (rule pr product_le_lengths component_le_length)+
  show "\<bar>qw (quat_sub (quat_mul_fl e p q) (quat_mul p q))\<bar> \<le> dot4_err u \<nu> ?m"
    using w by (simp add: quat_sub_def quat_mul_fl_def quat_mul_def)
  have x: "\<bar>fl (e 13) (fl (e 11) (fl (e 9) (fl (e 7) (qw p * qx q) + fl (e 8) (qx p * qw q))
        + fl (e 10) (qy p * qz q)) + - fl (e 12) (qz p * qy q))
        - (qw p * qx q + qx p * qw q + qy p * qz q + - (qz p * qy q))\<bar> \<le> dot4_err u \<nu> ?m"
    by (rule sum4_err [OF ok ok ok u])
       (rule pr product_le_lengths component_le_length)+
  show "\<bar>qx (quat_sub (quat_mul_fl e p q) (quat_mul p q))\<bar> \<le> dot4_err u \<nu> ?m"
    using x by (simp add: quat_sub_def quat_mul_fl_def quat_mul_def)
  have y: "\<bar>fl (e 20) (fl (e 18) (fl (e 16) (fl (e 14) (qw p * qy q) + fl (e 15) (qy p * qw q))
        + fl (e 17) (qz p * qx q)) + - fl (e 19) (qx p * qz q))
        - (qw p * qy q + qy p * qw q + qz p * qx q + - (qx p * qz q))\<bar> \<le> dot4_err u \<nu> ?m"
    by (rule sum4_err [OF ok ok ok u])
       (rule pr product_le_lengths component_le_length)+
  show "\<bar>qy (quat_sub (quat_mul_fl e p q) (quat_mul p q))\<bar> \<le> dot4_err u \<nu> ?m"
    using y by (simp add: quat_sub_def quat_mul_fl_def quat_mul_def)
  have z: "\<bar>fl (e 27) (fl (e 25) (fl (e 23) (fl (e 21) (qw p * qz q) + fl (e 22) (qz p * qw q))
        + fl (e 24) (qx p * qy q)) + - fl (e 26) (qy p * qx q))
        - (qw p * qz q + qz p * qw q + qx p * qy q + - (qy p * qx q))\<bar> \<le> dot4_err u \<nu> ?m"
    by (rule sum4_err [OF ok ok ok u])
       (rule pr product_le_lengths component_le_length)+
  show "\<bar>qz (quat_sub (quat_mul_fl e p q) (quat_mul p q))\<bar> \<le> dot4_err u \<nu> ?m"
    using z by (simp add: quat_sub_def quat_mul_fl_def quat_mul_def)
qed


lemma quat_mul_sub_right:
  "quat_sub (quat_mul p a) (quat_mul p b) = quat_mul p (quat_sub a b)"
  by (simp add: quat_sub_def quat_mul_def algebra_simps)

lemma dot4_err_mono:
  assumes "0 \<le> u" and "m \<le> m'"
  shows "dot4_err u \<nu> m \<le> dot4_err u \<nu> m'"
proof -
  define e1 where "e1 k = u * k + \<nu>" for k
  define e2 where "e2 k = e1 k + e1 k + u * (k + k + e1 k + e1 k) + \<nu>" for k
  define e3 where "e3 k = e2 k + e1 k + u * (2 * k + k + e2 k + e1 k) + \<nu>" for k
  have d: "dot4_err u \<nu> k = e3 k + e1 k + u * (3 * k + k + e3 k + e1 k) + \<nu>" for k
    by (simp only: dot4_err_def Let_def e3_def e2_def e1_def)
  have m1: "e1 m \<le> e1 m'"
    unfolding e1_def using assms by (intro add_mono mult_left_mono) simp_all
  have m2: "e2 m \<le> e2 m'"
    unfolding e2_def using assms m1 by (intro add_mono mult_left_mono) simp_all
  have m3: "e3 m \<le> e3 m'"
    unfolding e3_def using assms m1 m2 by (intro add_mono mult_left_mono) simp_all
  show ?thesis
    unfolding d using assms m1 m3 by (intro add_mono mult_left_mono) simp_all
qed

lemma dot4_err_float32: "dot4_err (1 / 2 ^ 24) (1 / 2 ^ 149) 2 \<le> 1 / 500000"
  by (simp add: dot4_err_def Let_def)

lemma rounded_rotation_length:
  assumes ok: "\<And>i. rounding_ok u \<nu> (e i)" and u: "0 \<le> u"
    and tol: "\<bar>quat_length (toGlm_quat (Orientation (ThePose (handPose :: ovrPoseStatef)))) - 1\<bar>
        \<le> tol"
    and stored: "quat_length (quat_sub stored
        (if hand = ovrHand_Left then leftRotationOffset else rightRotationOffset)) \<le> \<delta>"
  shows "\<bar>quat_length (quat_mul_fl e (toGlm_quat (Orientation (ThePose handPose))) stored) - 1\<bar>
     \<le> tol + quat_length (toGlm_quat (Orientation (ThePose handPose))) * \<delta>
        + 2 * dot4_err u \<nu>
            (quat_length (toGlm_quat (Orientation (ThePose handPose))) * quat_length stored)"
proof -
  let ?rot = "toGlm_quat (Orientation (ThePose handPose))"
  let ?off = "if hand = ovrHand_Left then leftRotationOffset else rightRotationOffset"
  let ?exact = "rotation (ovrControllerPoseToHandPose hand handPose)"
  have e: "?exact = quat_mul ?rot ?off"
    by (rule pose_rotation)
  have "quat_length (quat_sub (quat_mul ?rot stored) ?exact)
          = quat_length ?rot * quat_length (quat_sub stored ?off)"
    unfolding e quat_mul_sub_right by (rule quat_length_mul)
  also have "\<dots> \<le> quat_length ?rot * \<delta>"
    using stored by (intro mult_left_mono quat_length_nonneg)
  finally have d1: "quat_length (quat_sub (quat_mul ?rot stored) ?exact)
      \<le> quat_length ?rot * \<delta>" .
  have d2: "quat_length (quat_sub (quat_mul_fl e ?rot stored) (quat_mul ?rot stored))
      \<le> 2 * dot4_err u \<nu> (quat_length ?rot * quat_length stored)"
    by (rule quat_mul_fl_err [OF ok u])
  have d3: "\<bar>quat_length ?exact - 1\<bar> \<le> tol"
    using tol by (simp add: rotation_length)
  show ?thesis
    using d1 d2 d3 quat_length_diff [of "quat_mul_fl e ?rot stored" "quat_mul ?rot stored"]
      quat_length_diff [of "quat_mul ?rot stored" ?exact]
    by linarith
qed

lemma rounded_rotation_length_float32:
  assumes ok: "\<And>i. rounding_ok (1 / 2 ^ 24) (1 / 2 ^ 149) (e i)"
    and tol: "\<bar>quat_length (toGlm_quat (Orientation (ThePose (handPose :: ovrPoseStatef)))) - 1\<bar>
        \<le> 1 / 2 ^ 20"
    and stored: "quat_length (quat_sub stored
        (if hand = ovrHand_Left then leftRotationOffset else rightRotationOffset)) \<le> 1 / 2 ^ 20"
  shows "\<bar>quat_length (quat_mul_fl e (toGlm_quat (Orientation (ThePose handPose))) stored) - 1\<bar>
     \<le> 1 / 10 ^ 5"
proof -
  let ?rot = "toGlm_quat (Orientation (ThePose handPose))"
  let ?off = "if hand = ovrHand_Left then leftRotationOffset else rightRotationOffset"
  have off: "quat_length ?off = 1"
    by (simp add: rotationOffsets_length)
  have r: "0 \<le> quat_length ?rot" "quat_length ?rot \<le> 1 + 1 / 2 ^ 20"
    using tol quat_length_nonneg [of ?rot] by linarith+
  have s: "0 \<le> quat_length stored" "quat_length stored \<le> 1 + 1 / 2 ^ 20"
    using stored quat_length_diff [of stored ?off] off quat_length_nonneg [of stored]
    by linarith+
  have "quat_length ?rot * quat_length stored \<le> (1 + 1 / 2 ^ 20) * (1 + 1 / 2 ^ 20)"
    using r s by (intro mult_mono) simp_all
  also have "\<dots> \<le> 2" by simp
  finally have m: "quat_length ?rot * quat_length stored \<le> 2" .
  have E: "dot4_err (1 / 2 ^ 24) (1 / 2 ^ 149) (quat_length ?rot * quat_length stored)
      \<le> 1 / 500000"
    using dot4_err_mono [OF _ m, of "1 / 2 ^ 24" "1 / 2 ^ 149"] dot4_err_float32 by simp
  have "quat_length ?rot * (1 / 2 ^ 20) \<le> (1 + 1 / 2 ^ 20) * (1 / 2 ^ 20)"
    using r by (intro mult_right_mono) simp_all
  then have D: "quat_length ?rot * (1 / 2 ^ 20) \<le> 1 / 10 ^ 6"
    by simp
  have u0: "(0::real) \<le> 1 / 2 ^ 24" by simp
  note b = rounded_rotation_length [of "1 / 2 ^ 24" "1 / 2 ^ 149" e, OF ok u0 tol stored]
  show ?thesis
    using b E D by simp
qed

subsection \<open>Calls on the static storage\<close>

lemma static_const_ok:
  assumes "get s = None \<or> get s = Some c" and "put (get s) s = s"
  shows "static_const get put c s = (c, put (Some c) s)"
  using assms by (auto simp: static_const_def)

lemmas pose_constants_defs =
  yFlip_def quarterX_def touchToHand_def leftQuarterZ_def rightQuarterZ_def eighthX_def
  leftRotationOffset_def rightRotationOffset_def CONTROLLER_OFFSET_def
  leftTranslationOffset_def rightTranslationOffset_def

lemma st_on_ok:
  assumes "statics_ok s"
  shows "ovrControllerPoseToHandPose_st hand handPose s
           = (ovrControllerPoseToHandPose hand handPose, all_initialised s)"
  using assms
  unfolding ovrControllerPoseToHandPose_st_def statics_ok_def
  by (simp add: static_const_ok pose_constants_defs ovrControllerPoseToHandPose_def
      all_initialised_def Let_def)

lemma statics_ok_all_initialised: "statics_ok (all_initialised s)"
  by (simp add: statics_ok_def all_initialised_def)

lemma all_initialised_idem: "all_initialised (all_initialised s) = all_initialised s"
  by (simp add: all_initialised_def)

lemma statics_ok_start: "statics_ok storage_at_start"
  by (simp add: statics_ok_def storage_at_start_def)

lemma reachable_ok: "reachable s \<Longrightarrow> statics_ok s"
proof (induction rule: reachable.induct)
  case program_start
  show ?case by (rule statics_ok_start)
next
  case (other_code s r h path a b)
  then show ?case by (simp add: statics_ok_def)
next
  case (pose_call s hand handPose)
  then show ?case by (simp add: st_on_ok statics_ok_all_initialised)
qed

text \<open>
  C9. In every storage in which each block-scope constant is uninitialised or holds its
  initial value, which includes every reachable storage (\<open>reachable_ok\<close>), a call
  returns the pose that the handedness and the raw pose determine, so two calls with the
  same arguments return the same pose whatever the two storages are. The call leaves every
  mutable static of the file as it was. What it writes is the one-time initialisation of
  its own constants, to values that depend on neither argument, and a call after that
  writes nothing.
\<close>

theorem calls_deterministic_and_stateless:
  assumes "statics_ok s1" and "statics_ok s2"
  shows "fst (ovrControllerPoseToHandPose_st hand handPose s1)
           = fst (ovrControllerPoseToHandPose_st hand handPose s2)
    \<and> fst (ovrControllerPoseToHandPose_st hand handPose s1)
           = ovrControllerPoseToHandPose hand handPose
    \<and> refCount (snd (ovrControllerPoseToHandPose_st hand handPose s1)) = refCount s1
    \<and> session (snd (ovrControllerPoseToHandPose_st hand handPose s1)) = session s1
    \<and> FOUND_PATH (snd (ovrControllerPoseToHandPose_st hand handPose s1)) = FOUND_PATH s1
    \<and> oculusAvailable_once (snd (ovrControllerPoseToHandPose_st hand handPose s1))
         = oculusAvailable_once s1
    \<and> oculusAvailable_result (snd (ovrControllerPoseToHandPose_st hand handPose s1))
         = oculusAvailable_result s1
    \<and> snd (ovrControllerPoseToHandPose_st hand handPose s1) = all_initialised s1
    \<and> snd (ovrControllerPoseToHandPose_st hand handPose s1)
         = snd (ovrControllerPoseToHandPose_st hand' handPose' s1)
    \<and> snd (ovrControllerPoseToHandPose_st hand' handPose'
              (snd (ovrControllerPoseToHandPose_st hand handPose s1)))
         = snd (ovrControllerPoseToHandPose_st hand handPose s1)"
proof -
  note ok = assms
  have r: "ovrControllerPoseToHandPose_st h p s1
             = (ovrControllerPoseToHandPose h p, all_initialised s1)"
    "ovrControllerPoseToHandPose_st h p s2
             = (ovrControllerPoseToHandPose h p, all_initialised s2)"
    "ovrControllerPoseToHandPose_st h p (all_initialised s1)
             = (ovrControllerPoseToHandPose h p, all_initialised s1)" for h p
    using ok by (simp_all add: st_on_ok statics_ok_all_initialised all_initialised_idem)
  have f: "refCount (all_initialised s1) = refCount s1"
    "session (all_initialised s1) = session s1"
    "FOUND_PATH (all_initialised s1) = FOUND_PATH s1"
    "oculusAvailable_once (all_initialised s1) = oculusAvailable_once s1"
    "oculusAvailable_result (all_initialised s1) = oculusAvailable_result s1"
    by (simp_all add: all_initialised_def)
  show ?thesis
    by (simp add: r f)
qed

theorem calls_deterministic_and_stateless_witness:
  "reachable storage_at_start \<and> statics_ok storage_at_start
   \<and> reachable (snd (ovrControllerPoseToHandPose_st ovrHand_Left scenario_rawPose
        (storage_at_start\<lparr>refCount := 3, session := 4096, FOUND_PATH := [67, 58],
           oculusAvailable_once := True, oculusAvailable_result := True\<rparr>)))
   \<and> statics_ok (snd (ovrControllerPoseToHandPose_st ovrHand_Left scenario_rawPose
        (storage_at_start\<lparr>refCount := 3, session := 4096, FOUND_PATH := [67, 58],
           oculusAvailable_once := True, oculusAvailable_result := True\<rparr>)))
   \<and> fst (ovrControllerPoseToHandPose_st ovrHand_Right scenario_rawPose storage_at_start)
       = fst (ovrControllerPoseToHandPose_st ovrHand_Right scenario_rawPose
           (snd (ovrControllerPoseToHandPose_st ovrHand_Left scenario_rawPose
             (storage_at_start\<lparr>refCount := 3, session := 4096, FOUND_PATH := [67, 58],
                oculusAvailable_once := True, oculusAvailable_result := True\<rparr>))))
   \<and> refCount (snd (ovrControllerPoseToHandPose_st ovrHand_Right scenario_rawPose
        storage_at_start)) = 0
   \<and> st_rightRotationOffset (snd (ovrControllerPoseToHandPose_st ovrHand_Right
        scenario_rawPose storage_at_start)) = Some rightRotationOffset"
proof -
  let ?s2 = "snd (ovrControllerPoseToHandPose_st ovrHand_Left scenario_rawPose
        (storage_at_start\<lparr>refCount := 3, session := 4096, FOUND_PATH := [67, 58],
           oculusAvailable_once := True, oculusAvailable_result := True\<rparr>))"
  have r1: "reachable storage_at_start"
    by (rule reachable.program_start)
  have r2: "reachable ?s2"
    by (rule reachable.pose_call, rule reachable.other_code, rule reachable.program_start)
  have k1: "statics_ok storage_at_start"
    by (simp add: statics_ok_def storage_at_start_def)
  have k2: "statics_ok ?s2"
    by (rule reachable_ok [OF r2])
  have z: "refCount storage_at_start = 0" "refCount (all_initialised storage_at_start) = 0"
    "st_rightRotationOffset (all_initialised storage_at_start) = Some rightRotationOffset"
    by (simp_all add: storage_at_start_def all_initialised_def)
  show ?thesis
    using r1 r2 k1 k2 z
      calls_deterministic_and_stateless [OF k1 k2, of ovrHand_Right scenario_rawPose]
    by simp
qed

subsection \<open>Handedness values other than Left\<close>

lemma offsets_differ_by_hand:
  "leftTranslationOffset \<noteq> rightTranslationOffset" "leftRotationOffset \<noteq> rightRotationOffset"
proof -
  show "leftTranslationOffset \<noteq> rightTranslationOffset"
    by (simp add: leftTranslationOffset_def rightTranslationOffset_def vec3_mul_def
        CONTROLLER_OFFSET_def CONTROLLER_LENGTH_OFFSET_def)
  have "0 < cos (pi / 8)" "0 < sin (pi / 8)"
    by (rule cos_gt_zero, simp_all) (rule sin_gt_zero, simp_all)
  then have "qx leftRotationOffset < 0" "0 < qx rightRotationOffset"
    by (simp_all add: leftRotationOffset_value rightRotationOffset_value)
  then show "leftRotationOffset \<noteq> rightRotationOffset"
    by auto
qed

text \<open>
  C10. For every handedness value other than Left, named or not, the function returns a
  pose, and it is the pose built from the right-hand rotation and translation offsets:
  the same pose as for Right.
\<close>

theorem non_left_hand_selects_right_offsets:
  assumes "hand \<noteq> ovrHand_Left"
  shows "ovrControllerPoseToHandPose hand handPose
      = \<lparr>translation = vec3_add (toGlm_vec3 (Position (ThePose handPose)))
           (quat_rotate (toGlm_quat (Orientation (ThePose handPose))) rightTranslationOffset),
         rotation = quat_mul (toGlm_quat (Orientation (ThePose handPose))) rightRotationOffset,
         velocity = toGlm_vec3 (LinearVelocity handPose),
         angularVelocity = toGlm_vec3 (AngularVelocity handPose),
         valid = True\<rparr>
    \<and> ovrControllerPoseToHandPose hand handPose
      = ovrControllerPoseToHandPose ovrHand_Right handPose"
  using assms
  by (simp add: ovrControllerPoseToHandPose_def hands_distinct Pose_default_def Let_def)

theorem non_left_hand_selects_right_offsets_witness:
  "ovrHand_Count \<noteq> ovrHand_Left
   \<and> (0x7fffffff :: ovrHandType) \<noteq> ovrHand_Left
   \<and> ovrControllerPoseToHandPose ovrHand_Count scenario_rawPose
       = \<lparr>translation = rightTranslationOffset, rotation = rightRotationOffset,
          velocity = vec3 1 0 0, angularVelocity = vec3 0 0 0, valid = True\<rparr>
   \<and> ovrControllerPoseToHandPose (0x7fffffff) scenario_rawPose
       = \<lparr>translation = rightTranslationOffset, rotation = rightRotationOffset,
          velocity = vec3 1 0 0, angularVelocity = vec3 0 0 0, valid = True\<rparr>"
proof -
  have h: "ovrHand_Count \<noteq> ovrHand_Left" "(0x7fffffff :: ovrHandType) \<noteq> ovrHand_Left"
    by (simp_all add: ovrHand_Count_def ovrHand_Left_def)
  note t1 = non_left_hand_selects_right_offsets [OF h(1), of scenario_rawPose, THEN conjunct1]
  note t2 = non_left_hand_selects_right_offsets [OF h(2), of scenario_rawPose, THEN conjunct1]
  show ?thesis
    unfolding t1 t2
    using h
    by (simp add: scenario_rawPose_def quat_mul_identity_left quat_rotate_identity
        vec3_add_zero_left)
qed

end
